theory Spec2Isabelle
  imports
    Main
    "HOL-Library.Word"
    "HOL-Library.Multiset"
    "HOL-Library.Sublist"
    "HOL-Library.Char_ord"
    "HOL-Library.List_Lexorder"
begin

unbundle bit_operations_syntax

section \<open>Python values\<close>

subsection \<open>Dictionaries\<close>

text \<open>
  A Python \<open>dict\<close> keeps its keys in insertion order, and storing under a key that is
  already there replaces the value and keeps the key's place. The dictionaries of the
  tools are iterated in that order, so they are association lists; \<open>dict_set\<close> is
  \<open>d[k] = v\<close>.
\<close>

type_synonym ('k, 'v) dict = "('k \<times> 'v) list"

fun dict_get :: "('k, 'v) dict \<Rightarrow> 'k \<Rightarrow> 'v option" where
  "dict_get [] k = None"
| "dict_get ((k', v) # d) k = (if k = k' then Some v else dict_get d k)"

fun dict_set :: "'k \<Rightarrow> 'v \<Rightarrow> ('k, 'v) dict \<Rightarrow> ('k, 'v) dict" where
  "dict_set k v [] = [(k, v)]"
| "dict_set k v ((k', v') # d) =
     (if k = k' then (k, v) # d else (k', v') # dict_set k v d)"

definition dict_keys :: "('k, 'v) dict \<Rightarrow> 'k list" where
  "dict_keys d = map fst d"

definition dict_values :: "('k, 'v) dict \<Rightarrow> 'v list" where
  "dict_values d = map snd d"

definition dict_has :: "('k, 'v) dict \<Rightarrow> 'k \<Rightarrow> bool" where
  "dict_has d k = (dict_get d k \<noteq> None)"

text \<open>The comprehension \<open>{key(x): x for x in xs}\<close>: a later element replaces an earlier
  one with the same key.\<close>

definition dict_of :: "('a \<Rightarrow> 'k) \<Rightarrow> 'a list \<Rightarrow> ('k, 'a) dict" where
  "dict_of key xs = fold (\<lambda>x d. dict_set (key x) x d) xs []"

text \<open>\<open>d.setdefault(k, []).append(x)\<close>\<close>

definition setdefault_append :: "'k \<Rightarrow> 'a \<Rightarrow> ('k, 'a list) dict \<Rightarrow> ('k, 'a list) dict" where
  "setdefault_append k x d =
     (case dict_get d k of
        None \<Rightarrow> dict_set k [x] d
      | Some xs \<Rightarrow> dict_set k (xs @ [x]) d)"

subsection \<open>Strings\<close>

text \<open>
  A Python \<open>str\<close> is a sequence of code points. Here it is a \<open>string\<close>, a list of
  \<open>char\<close>, each read as the code point of the same number: the strings of the model are
  those whose code points are below 256. Strings compare by code point, lexicographically
  (the order \<open>sorted\<close> uses).
\<close>

text \<open>\<open>needle in haystack\<close>\<close>

fun str_contains :: "string \<Rightarrow> string \<Rightarrow> bool" where
  "str_contains needle [] = (needle = [])"
| "str_contains needle (c # cs) = (prefix needle (c # cs) \<or> str_contains needle cs)"

text \<open>\<open>sep.join(xs)\<close>\<close>

fun str_join :: "string \<Rightarrow> string list \<Rightarrow> string" where
  "str_join sep [] = []"
| "str_join sep [x] = x"
| "str_join sep (x # y # ys) = x @ sep @ str_join sep (y # ys)"

text \<open>
  \<open>str.upper\<close> and \<open>str.lower\<close> on the letters a to z and A to Z. The tools call
  \<open>upper\<close> only on one of the seven verb names, which are made of these letters.
\<close>

definition ascii_lowercase :: string where
  "ascii_lowercase = ''abcdefghijklmnopqrstuvwxyz''"

definition ascii_uppercase :: string where
  "ascii_uppercase = ''ABCDEFGHIJKLMNOPQRSTUVWXYZ''"

definition char_upper :: "char \<Rightarrow> char" where
  "char_upper c =
     (case map_of (zip ascii_lowercase ascii_uppercase) c of None \<Rightarrow> c | Some u \<Rightarrow> u)"


definition upper :: "string \<Rightarrow> string" where
  "upper s = map char_upper s"


text \<open>\<open>s.replace(old, new)\<close> for a non-empty \<open>old\<close>: the occurrences are replaced from
  left to right, without overlap.\<close>

function str_replace :: "string \<Rightarrow> string \<Rightarrow> string \<Rightarrow> string" where
  "str_replace old new [] = []"
| "str_replace old new (c # cs) =
     (if old \<noteq> [] \<and> prefix old (c # cs)
      then new @ str_replace old new (drop (length old) (c # cs))
      else c # str_replace old new cs)"
  by pat_completeness auto
termination
  by (relation "measure (\<lambda>(old, new, s). length s)") auto

text \<open>\<open>str(n)\<close> for a non-negative integer.\<close>

definition digit_char :: "nat \<Rightarrow> char" where
  "digit_char n = ''0123456789'' ! n"

fun str_of_nat :: "nat \<Rightarrow> string" where
  "str_of_nat n = (if n < 10 then [digit_char n] else str_of_nat (n div 10) @ [digit_char (n mod 10)])"

text \<open>\<open>str.strip()\<close>: the white space of Python among the code points below 256.\<close>

definition is_space :: "char \<Rightarrow> bool" where
  "is_space c =
     (let n = (of_char c :: nat) in
      (9 \<le> n \<and> n \<le> 13) \<or> (28 \<le> n \<and> n \<le> 32) \<or> n = 133 \<or> n = 160)"

definition strip :: "string \<Rightarrow> string" where
  "strip s = rev (dropWhile is_space (rev (dropWhile is_space s)))"

text \<open>\<open>s.split("\n", 1)\<close>: the text before the first line feed and, when there is a line
  feed, the text after it.\<close>

definition split_first_line :: "string \<Rightarrow> string \<times> string option" where
  "split_first_line s =
     (let first = takeWhile (\<lambda>c. c \<noteq> CHR 0x0A) s; rest = dropWhile (\<lambda>c. c \<noteq> CHR 0x0A) s
      in (first, case rest of [] \<Rightarrow> None | _ # r \<Rightarrow> Some r))"

subsection \<open>json.dumps and hashlib.md5\<close>

text \<open>
  \<open>json.dumps\<close> with its default \<open>ensure_ascii=True\<close> writes a string between double
  quotes and escapes the quote, the backslash and every code point outside the range from
  space to tilde; its default separators are \<open>", "\<close> and \<open>": "\<close>.
\<close>

definition hex_digit :: "nat \<Rightarrow> char" where
  "hex_digit n = ''0123456789abcdef'' ! n"

definition json_escape_char :: "char \<Rightarrow> string" where
  "json_escape_char c =
     (let n = (of_char c :: nat) in
      if n = 0x22 then [CHR 0x5C, CHR 0x22]
      else if n = 0x5C then [CHR 0x5C, CHR 0x5C]
      else if n = 0x0A then [CHR 0x5C, CHR ''n'']
      else if n = 0x0D then [CHR 0x5C, CHR ''r'']
      else if n = 0x09 then [CHR 0x5C, CHR ''t'']
      else if n = 0x08 then [CHR 0x5C, CHR ''b'']
      else if n = 0x0C then [CHR 0x5C, CHR ''f'']
      else if 0x20 \<le> n \<and> n \<le> 0x7E then [c]
      else [CHR 0x5C, CHR ''u'', CHR ''0'', CHR ''0'', hex_digit (n div 16), hex_digit (n mod 16)])"

definition json_str :: "string \<Rightarrow> string" where
  "json_str s = [CHR 0x22] @ concat (map json_escape_char s) @ [CHR 0x22]"

definition json_str_list :: "string list \<Rightarrow> string" where
  "json_str_list xs = ''['' @ str_join '', '' (map json_str xs) @ '']''"

text \<open>The dictionary \<open>model_structure\<close> of \<open>_parse_model\<close> and its rendering by
  \<open>json.dumps(model_structure, sort_keys=True)\<close>: the keys come out as bases, fields,
  name.\<close>

record model_structure =
  ms_name :: string
  ms_bases :: "string list"
  ms_fields :: "string list"

definition json_dumps_sorted :: "model_structure \<Rightarrow> string" where
  "json_dumps_sorted m =
     [CHR ''{'', CHR 0x22] @ ''bases'' @ [CHR 0x22] @ '': '' @ json_str_list (ms_bases m)
     @ '', '' @ [CHR 0x22] @ ''fields'' @ [CHR 0x22] @ '': '' @ json_str_list (ms_fields m)
     @ '', '' @ [CHR 0x22] @ ''name'' @ [CHR 0x22] @ '': '' @ json_str (ms_name m)
     @ ''}''"

text \<open>\<open>str.encode()\<close> of a string of ASCII characters, as \<open>json.dumps\<close> returns.\<close>

definition encode :: "string \<Rightarrow> 8 word list" where
  "encode s = map (\<lambda>c. of_char c) s"

text \<open>MD5 (RFC 1321) on 32-bit words: the sine table, the shift amounts, the padding,
  the 64 steps of one 64-byte block, and the digest in little-endian bytes.\<close>

definition md5_K :: "32 word list" where
  "md5_K =
     [
      0xd76aa478, 0xe8c7b756, 0x242070db, 0xc1bdceee,
      0xf57c0faf, 0x4787c62a, 0xa8304613, 0xfd469501,
      0x698098d8, 0x8b44f7af, 0xffff5bb1, 0x895cd7be,
      0x6b901122, 0xfd987193, 0xa679438e, 0x49b40821,
      0xf61e2562, 0xc040b340, 0x265e5a51, 0xe9b6c7aa,
      0xd62f105d, 0x02441453, 0xd8a1e681, 0xe7d3fbc8,
      0x21e1cde6, 0xc33707d6, 0xf4d50d87, 0x455a14ed,
      0xa9e3e905, 0xfcefa3f8, 0x676f02d9, 0x8d2a4c8a,
      0xfffa3942, 0x8771f681, 0x6d9d6122, 0xfde5380c,
      0xa4beea44, 0x4bdecfa9, 0xf6bb4b60, 0xbebfbc70,
      0x289b7ec6, 0xeaa127fa, 0xd4ef3085, 0x04881d05,
      0xd9d4d039, 0xe6db99e5, 0x1fa27cf8, 0xc4ac5665,
      0xf4292244, 0x432aff97, 0xab9423a7, 0xfc93a039,
      0x655b59c3, 0x8f0ccc92, 0xffeff47d, 0x85845dd1,
      0x6fa87e4f, 0xfe2ce6e0, 0xa3014314, 0x4e0811a1,
      0xf7537e82, 0xbd3af235, 0x2ad7d2bb, 0xeb86d391]"

definition md5_S :: "nat list" where
  "md5_S =
     [
      7, 12, 17, 22, 7, 12, 17, 22, 7, 12, 17, 22, 7, 12, 17, 22,
      5, 9, 14, 20, 5, 9, 14, 20, 5, 9, 14, 20, 5, 9, 14, 20,
      4, 11, 16, 23, 4, 11, 16, 23, 4, 11, 16, 23, 4, 11, 16, 23,
      6, 10, 15, 21, 6, 10, 15, 21, 6, 10, 15, 21, 6, 10, 15, 21]"

definition md5_pad :: "8 word list \<Rightarrow> 8 word list" where
  "md5_pad msg =
     (let n = length msg;
          zeros = (55 + 64 - n mod 64) mod 64;
          bits = (word_of_nat (8 * n) :: 64 word)
      in msg @ [0x80] @ replicate zeros 0
         @ map (\<lambda>i. ucast (drop_bit (8 * i) bits)) [0..<8])"

fun le_word32 :: "8 word list \<Rightarrow> 32 word" where
  "le_word32 [] = 0"
| "le_word32 (b # bs) = ucast b OR push_bit 8 (le_word32 bs)"

fun md5_words :: "nat \<Rightarrow> 8 word list \<Rightarrow> 32 word list" where
  "md5_words 0 bs = []"
| "md5_words (Suc k) bs = le_word32 (take 4 bs) # md5_words k (drop 4 bs)"

type_synonym md5_state = "32 word \<times> 32 word \<times> 32 word \<times> 32 word"

definition md5_step :: "32 word list \<Rightarrow> md5_state \<Rightarrow> nat \<Rightarrow> md5_state" where
  "md5_step m st i =
     (case st of (a, b, c, d) \<Rightarrow>
        let (f, g) =
              (if i < 16 then ((b AND c) OR (NOT b AND d), i)
               else if i < 32 then ((d AND b) OR (NOT d AND c), (5 * i + 1) mod 16)
               else if i < 48 then (b XOR c XOR d, (3 * i + 5) mod 16)
               else (c XOR (b OR NOT d), (7 * i) mod 16));
            f' = f + a + md5_K ! i + m ! g
        in (d, b + word_rotl (md5_S ! i) f', b, c))"

definition md5_block :: "md5_state \<Rightarrow> 8 word list \<Rightarrow> md5_state" where
  "md5_block st block =
     (case st of (a0, b0, c0, d0) \<Rightarrow>
        case foldl (md5_step (md5_words 16 block)) st [0..<64] of (a, b, c, d) \<Rightarrow>
          (a0 + a, b0 + b, c0 + c, d0 + d))"

fun md5_blocks :: "nat \<Rightarrow> md5_state \<Rightarrow> 8 word list \<Rightarrow> md5_state" where
  "md5_blocks 0 st bs = st"
| "md5_blocks (Suc k) st bs = md5_blocks k (md5_block st (take 64 bs)) (drop 64 bs)"

definition word32_bytes :: "32 word \<Rightarrow> 8 word list" where
  "word32_bytes w = map (\<lambda>i. ucast (drop_bit (8 * i) w)) [0..<4]"

definition md5_digest :: "8 word list \<Rightarrow> 8 word list" where
  "md5_digest msg =
     (let p = md5_pad msg in
      case md5_blocks (length p div 64) (0x67452301, 0xefcdab89, 0x98badcfe, 0x10325476) p
      of (a, b, c, d) \<Rightarrow> word32_bytes a @ word32_bytes b @ word32_bytes c @ word32_bytes d)"

definition hexdigest :: "8 word list \<Rightarrow> string" where
  "hexdigest bs = concat (map (\<lambda>b. [hex_digit (unat b div 16), hex_digit (unat b mod 16)]) bs)"

section \<open>Syntax trees (module ast)\<close>

text \<open>
  The part of a parsed module the tools read. A literal constant is a string, a
  non-negative integer (a minus sign is a separate node), a truth value or \<open>None\<close>;
  bytes, floating-point, complex and ellipsis literals are outside the model.
  An expression the tools only render as text (a type annotation, an initializer, a
  return type) is kept as that text: what \<open>ast.unparse\<close> gives for it, or \<open>str\<close> of
  the node when \<open>ast.unparse\<close> raises.
\<close>

datatype const_value = StrC string | IntC nat | BoolC bool | NoneC

datatype expr =
    Name string
  | Attribute expr string
  | Call expr "expr list" "(string option \<times> expr) list"
  | Constant const_value
  | ListE "expr list"
  | OtherExpr

datatype arg = Arg (arg_name: string) (arg_annotation: "string option")

record class_head =
  cd_name :: string
  cd_bases :: "expr list"
  cd_decorator_list :: "expr list"
  cd_lineno :: int
  cd_docstring :: "string option"

record func_head =
  fd_is_async :: bool
  fd_name :: string
  fd_args :: "arg list"
  fd_returns :: "string option"
  fd_decorator_list :: "expr list"
  fd_lineno :: int
  fd_docstring :: "string option"

text \<open>
  \<open>cd_docstring\<close> and \<open>fd_docstring\<close> are what \<open>ast.get_docstring\<close> returns for the
  node; \<open>fd_args\<close> is \<open>node.args.args\<close>, the plain positional parameters. Every
  statement that is neither a class, a function nor an annotated assignment is an
  \<open>OtherNode\<close> with the nodes below it.
\<close>

datatype node =
    Module "node list"
  | ClassDef class_head "node list"
  | FunctionDef func_head "node list"
  | AnnAssign expr string "string option"
  | OtherNode "node list"

fun iter_child_nodes :: "node \<Rightarrow> node list" where
  "iter_child_nodes (Module body) = body"
| "iter_child_nodes (ClassDef h body) = body"
| "iter_child_nodes (FunctionDef h body) = body"
| "iter_child_nodes (AnnAssign t a v) = []"
| "iter_child_nodes (OtherNode children) = children"

fun node_size :: "node \<Rightarrow> nat" where
  "node_size (Module body) = Suc (sum_list (map node_size body))"
| "node_size (ClassDef h body) = Suc (sum_list (map node_size body))"
| "node_size (FunctionDef h body) = Suc (sum_list (map node_size body))"
| "node_size (AnnAssign t a v) = 1"
| "node_size (OtherNode children) = Suc (sum_list (map node_size children))"

lemma node_size_children:
  "sum_list (map node_size (iter_child_nodes n)) < node_size n"
  by (cases n) simp_all

text \<open>\<open>ast.walk\<close>: breadth first, from a queue that starts with the tree.\<close>

function walk_queue :: "node list \<Rightarrow> node list" where
  "walk_queue [] = []"
| "walk_queue (n # todo) = n # walk_queue (todo @ iter_child_nodes n)"
  by pat_completeness auto
termination
proof (relation "measure (\<lambda>todo. sum_list (map node_size todo))")
  show "wf (measure (\<lambda>todo. sum_list (map node_size todo)))"
    by simp
next
  fix n todo
  show "(todo @ iter_child_nodes n, n # todo) \<in> measure (\<lambda>todo. sum_list (map node_size todo))"
    using node_size_children [of n] by simp
qed

definition walk :: "node \<Rightarrow> node list" where
  "walk tree = walk_queue [tree]"

section \<open>Version tracker (TOOLSET/version_tracker.py)\<close>

subsection \<open>Data classes\<close>

record field_info =
  fi_name :: string
  fi_type :: string
  fi_default :: "string option"
  fi_required :: bool
  fi_description :: "string option"

record model_version =
  mv_name :: string
  mv_version :: string
  mv_file_path :: string
  mv_line_number :: int
  mv_module :: string
  mv_base_classes :: "string list"
  mv_fields :: "field_info list"
  mv_docstring :: "string option"
  mv_is_pydantic :: bool
  mv_is_dataclass :: bool
  mv_hash :: string
  mv_git_commit :: "string option"
  mv_git_author :: "string option"
  mv_last_modified :: "string option"
  mv_used_in_endpoints :: "string list"

text \<open>
  \<open>ev_path\<close>, \<open>ev_tags\<close> and \<open>ev_deprecated\<close> hold whatever literal constants the
  decorator carries: Python does not check them against the declared field types.
\<close>

record endpoint_version =
  ev_path :: const_value
  ev_method :: string
  ev_function_name :: string
  ev_file_path :: string
  ev_line_number :: int
  ev_request_model :: "string option"
  ev_response_model :: "string option"
  ev_status_codes :: "int list"
  ev_tags :: "const_value list"
  ev_summary :: "string option"
  ev_description :: "string option"
  ev_deprecated :: const_value
  ev_version :: string

text \<open>
  The state of a \<open>VersionTracker\<close>, with the lines it has printed. \<open>git_info\<close>, which
  comes from running git and is only copied into the exports, is left out.
\<close>

record tracker =
  project_version :: string
  models :: "(string, model_version) dict"
  endpoints :: "endpoint_version list"
  files_analyzed :: "string list"
  printed :: "string list"

text \<open>
  One file that \<open>rglob("*.py")\<close> yields: its path, its path relative to the root, what
  \<open>_get_file_git_info\<close> returns for it (commit, timestamp, author), and what reading
  and parsing it gives: the exception's text when \<open>open\<close>, \<open>read\<close> or \<open>ast.parse\<close>
  raises (a syntax error, an encoding error), the tree otherwise.
\<close>

datatype parsed = ParseError string | Parsed node

record source_file =
  sf_path :: string
  sf_relative :: string
  sf_git :: "string option \<times> string option \<times> string option"
  sf_parsed :: parsed

subsection \<open>Names of decorators and base classes\<close>

fun attr_parts :: "expr \<Rightarrow> string list" where
  "attr_parts (Attribute v a) = a # attr_parts v"
| "attr_parts (Name i) = [i]"
| "attr_parts _ = []"

definition get_attr_name :: "expr \<Rightarrow> string" where
  "get_attr_name node = str_join ''.'' (rev (attr_parts node))"

fun get_decorator_name :: "expr \<Rightarrow> string" where
  "get_decorator_name (Name i) = i"
| "get_decorator_name (Call (Name i) args kws) = i"
| "get_decorator_name (Call (Attribute v a) args kws) = get_attr_name (Attribute v a)"
| "get_decorator_name (Attribute v a) = get_attr_name (Attribute v a)"
| "get_decorator_name _ = []"

subsection \<open>_parse_model and _extract_models\<close>

fun base_class_names :: "expr list \<Rightarrow> string list" where
  "base_class_names [] = []"
| "base_class_names (Name i # bases) = i # base_class_names bases"
| "base_class_names (Attribute v a # bases) =
     get_attr_name (Attribute v a) # base_class_names bases"
| "base_class_names (_ # bases) = base_class_names bases"

fun class_fields :: "node list \<Rightarrow> field_info list" where
  "class_fields [] = []"
| "class_fields (AnnAssign (Name i) annotation val # body) =
     \<lparr> fi_name = i, fi_type = annotation, fi_default = val,
       fi_required = (val = None), fi_description = None \<rparr> # class_fields body"
| "class_fields (_ # body) = class_fields body"

definition field_key :: "field_info \<Rightarrow> string" where
  "field_key f = fi_name f @ '':'' @ fi_type f"

definition model_hash :: "string \<Rightarrow> string list \<Rightarrow> field_info list \<Rightarrow> string" where
  "model_hash name base_classes flds =
     take 8 (hexdigest (md5_digest (encode (json_dumps_sorted
       \<lparr> ms_name = name,
         ms_bases = sort base_classes,
         ms_fields = sort (map field_key flds) \<rparr>))))"

definition module_of :: "string \<Rightarrow> string" where
  "module_of relative =
     str_replace ''.py'' [] (str_replace ''/'' ''.'' (str_replace [CHR 0x5C] ''.'' relative))"

definition is_pydantic_bases :: "string list \<Rightarrow> bool" where
  "is_pydantic_bases base_classes = list_ex (str_contains ''BaseModel'') base_classes"

definition is_dataclass_decorators :: "string list \<Rightarrow> bool" where
  "is_dataclass_decorators decorators = (''dataclass'' \<in> set decorators)"

definition parse_model ::
  "string \<Rightarrow> source_file \<Rightarrow> class_head \<Rightarrow> node list \<Rightarrow> model_version option" where
  "parse_model version file h body =
     (let base_classes = base_class_names (cd_bases h);
          is_pydantic = is_pydantic_bases base_classes;
          decorators = map get_decorator_name (cd_decorator_list h);
          is_dataclass = is_dataclass_decorators decorators
      in if \<not> (is_pydantic \<or> is_dataclass) then None
         else
           (let flds = class_fields body in
            case sf_git file of (commit, timestamp, author) \<Rightarrow>
              Some \<lparr> mv_name = cd_name h,
                     mv_version = version,
                     mv_file_path = sf_relative file,
                     mv_line_number = cd_lineno h,
                     mv_module = module_of (sf_relative file),
                     mv_base_classes = base_classes,
                     mv_fields = flds,
                     mv_docstring = cd_docstring h,
                     mv_is_pydantic = is_pydantic,
                     mv_is_dataclass = is_dataclass,
                     mv_hash = model_hash (cd_name h) base_classes flds,
                     mv_git_commit = commit,
                     mv_git_author = author,
                     mv_last_modified = timestamp,
                     mv_used_in_endpoints = [] \<rparr>))"

definition extract_models_step ::
  "string \<Rightarrow> source_file \<Rightarrow> node \<Rightarrow> (string, model_version) dict \<Rightarrow> (string, model_version) dict" where
  "extract_models_step version file n ms =
     (case n of
        ClassDef h body \<Rightarrow>
          (case parse_model version file h body of
             None \<Rightarrow> ms
           | Some model \<Rightarrow> dict_set (mv_name model) model ms)
      | _ \<Rightarrow> ms)"

definition extract_models :: "tracker \<Rightarrow> source_file \<Rightarrow> node \<Rightarrow> tracker" where
  "extract_models tr file tree =
     tr \<lparr> models := fold (extract_models_step (project_version tr) file) (walk tree) (models tr) \<rparr>"

subsection \<open>_parse_endpoint and _extract_endpoints\<close>

definition http_verbs :: "string list" where
  "http_verbs = [''get'', ''post'', ''put'', ''patch'', ''delete'', ''options'', ''head'']"

text \<open>The four variables the loop over the decorators assigns.\<close>

record endpoint_acc =
  acc_http_method :: "string option"
  acc_endpoint_path :: const_value
  acc_tags :: "const_value list"
  acc_deprecated :: const_value

definition endpoint_acc0 :: endpoint_acc where
  "endpoint_acc0 =
     \<lparr> acc_http_method = None, acc_endpoint_path = NoneC, acc_tags = [],
       acc_deprecated = BoolC False \<rparr>"

text \<open>\<open>[e.value for e in elts if isinstance(e, ast.Constant)]\<close>\<close>

fun constant_values :: "expr list \<Rightarrow> const_value list" where
  "constant_values [] = []"
| "constant_values (Constant c # es) = c # constant_values es"
| "constant_values (_ # es) = constant_values es"

fun keyword_step :: "string option \<times> expr \<Rightarrow> endpoint_acc \<Rightarrow> endpoint_acc" where
  "keyword_step (kw, ListE elts) acc =
     (if kw = Some ''tags'' then acc \<lparr> acc_tags := constant_values elts \<rparr> else acc)"
| "keyword_step (kw, Constant c) acc =
     (if kw = Some ''deprecated'' then acc \<lparr> acc_deprecated := c \<rparr> else acc)"
| "keyword_step (kw, v) acc = acc"

fun decorator_path :: "expr \<Rightarrow> endpoint_acc \<Rightarrow> endpoint_acc" where
  "decorator_path (Call f (Constant c # args) kws) acc = acc \<lparr> acc_endpoint_path := c \<rparr>"
| "decorator_path _ acc = acc"

fun decorator_keywords :: "expr \<Rightarrow> endpoint_acc \<Rightarrow> endpoint_acc" where
  "decorator_keywords (Call f args kws) acc = fold keyword_step kws acc"
| "decorator_keywords _ acc = acc"

definition decorator_step :: "expr \<Rightarrow> endpoint_acc \<Rightarrow> endpoint_acc" where
  "decorator_step decorator acc =
     (let dec_name = get_decorator_name decorator in
      if dec_name \<in> set http_verbs
      then decorator_keywords decorator
             (decorator_path decorator (acc \<lparr> acc_http_method := Some (upper dec_name) \<rparr>))
      else acc)"

text \<open>The truth value Python gives a constant, as \<open>or\<close> and \<open>if\<close> test it.\<close>

fun truthy :: "const_value \<Rightarrow> bool" where
  "truthy (StrC s) = (s \<noteq> [])"
| "truthy (IntC n) = (n \<noteq> 0)"
| "truthy (BoolC b) = b"
| "truthy NoneC = False"

text \<open>The text an f-string gives a constant.\<close>

fun format_value :: "const_value \<Rightarrow> string" where
  "format_value (StrC s) = s"
| "format_value (IntC n) = str_of_nat n"
| "format_value (BoolC b) = (if b then ''True'' else ''False'')"
| "format_value NoneC = ''None''"

text \<open>
  The first key of \<open>self.models\<close> that occurs in the type text: the inner loop, which
  ends at its \<open>break\<close>.
\<close>

definition first_model_in :: "string list \<Rightarrow> string \<Rightarrow> string option" where
  "first_model_in model_names type_str = List.find (\<lambda>model_name. str_contains model_name type_str) model_names"

text \<open>The loop over \<open>node.args.args\<close>: a later parameter with a match assigns
  \<open>request_model\<close> again.\<close>

fun request_model_loop :: "string list \<Rightarrow> arg list \<Rightarrow> string option \<Rightarrow> string option" where
  "request_model_loop model_names [] request_model = request_model"
| "request_model_loop model_names (a # args) request_model =
     (case arg_annotation a of
        None \<Rightarrow> request_model_loop model_names args request_model
      | Some type_str \<Rightarrow>
          (case first_model_in model_names type_str of
             None \<Rightarrow> request_model_loop model_names args request_model
           | Some model_name \<Rightarrow> request_model_loop model_names args (Some model_name)))"

definition response_model_of :: "string list \<Rightarrow> string option \<Rightarrow> string option" where
  "response_model_of model_names returns =
     (case returns of None \<Rightarrow> None | Some type_str \<Rightarrow> first_model_in model_names type_str)"

definition docstring_summary :: "string option \<Rightarrow> string option" where
  "docstring_summary docstring =
     (case docstring of
        None \<Rightarrow> None
      | Some d \<Rightarrow> if d = [] then None else Some (strip (fst (split_first_line d))))"

definition docstring_description :: "string option \<Rightarrow> string option" where
  "docstring_description docstring =
     (case docstring of
        None \<Rightarrow> None
      | Some d \<Rightarrow> if d = [] then None else map_option strip (snd (split_first_line d)))"

definition parse_endpoint :: "tracker \<Rightarrow> source_file \<Rightarrow> func_head \<Rightarrow> endpoint_version option" where
  "parse_endpoint tr file h =
     (let acc = fold decorator_step (fd_decorator_list h) endpoint_acc0 in
      case acc_http_method acc of
        None \<Rightarrow> None
      | Some m \<Rightarrow>
          if m = [] then None
          else
            Some \<lparr> ev_path = (if truthy (acc_endpoint_path acc) then acc_endpoint_path acc
                              else StrC (''/'' @ fd_name h)),
                   ev_method = m,
                   ev_function_name = fd_name h,
                   ev_file_path = sf_relative file,
                   ev_line_number = fd_lineno h,
                   ev_request_model = request_model_loop (dict_keys (models tr)) (fd_args h) None,
                   ev_response_model = response_model_of (dict_keys (models tr)) (fd_returns h),
                   ev_status_codes = [],
                   ev_tags = acc_tags acc,
                   ev_summary = docstring_summary (fd_docstring h),
                   ev_description = docstring_description (fd_docstring h),
                   ev_deprecated = acc_deprecated acc,
                   ev_version = project_version tr \<rparr>)"

text \<open>\<open>self.models[name].used_in_endpoints.append(label)\<close>, guarded as in the source.\<close>

definition link_model ::
  "string option \<Rightarrow> string \<Rightarrow> (string, model_version) dict \<Rightarrow> (string, model_version) dict" where
  "link_model model label ms =
     (case model of
        None \<Rightarrow> ms
      | Some name \<Rightarrow>
          if name = [] then ms
          else
            (case dict_get ms name of
               None \<Rightarrow> ms
             | Some mv \<Rightarrow>
                 dict_set name (mv \<lparr> mv_used_in_endpoints := mv_used_in_endpoints mv @ [label] \<rparr>) ms))"

definition extract_endpoints_step :: "source_file \<Rightarrow> node \<Rightarrow> tracker \<Rightarrow> tracker" where
  "extract_endpoints_step file n tr =
     (case n of
        FunctionDef h body \<Rightarrow>
          (case parse_endpoint tr file h of
             None \<Rightarrow> tr
           | Some endpoint \<Rightarrow>
               (let label = ev_method endpoint @ '' '' @ format_value (ev_path endpoint) in
                tr \<lparr> endpoints := endpoints tr @ [endpoint],
                     models := link_model (ev_response_model endpoint) label
                                (link_model (ev_request_model endpoint) label (models tr)) \<rparr>))
      | _ \<Rightarrow> tr)"

definition extract_endpoints :: "tracker \<Rightarrow> source_file \<Rightarrow> node \<Rightarrow> tracker" where
  "extract_endpoints tr file tree = fold (extract_endpoints_step file) (walk tree) tr"

subsection \<open>_analyze_file and analyze_directory\<close>

text \<open>
  Everything \<open>_analyze_file\<close> does is inside one \<open>try\<close>; reading and parsing come
  first, so a file that fails there changes nothing but the printed lines.
\<close>

definition vt_analyze_file :: "tracker \<Rightarrow> source_file \<Rightarrow> tracker" where
  "vt_analyze_file tr file =
     (case sf_parsed file of
        ParseError e \<Rightarrow>
          tr \<lparr> printed := printed tr @ [''Error analyzing '' @ sf_path file @ '': '' @ e] \<rparr>
      | Parsed tree \<Rightarrow> extract_endpoints (extract_models tr file tree) file tree)"

definition vt_default_exclude :: "string list" where
  "vt_default_exclude =
     [''venv'', ''.venv'', ''__pycache__'', ''node_modules'', ''.git'', ''analysis_output'']"

definition excluded :: "string list \<Rightarrow> source_file \<Rightarrow> bool" where
  "excluded exclude_patterns file = list_ex (\<lambda>pattern. str_contains pattern (sf_path file)) exclude_patterns"

definition vt_analyze_directory_step :: "source_file \<Rightarrow> tracker \<Rightarrow> tracker" where
  "vt_analyze_directory_step file tr =
     (let tr' = vt_analyze_file tr file
      in tr' \<lparr> files_analyzed := files_analyzed tr' @ [sf_relative file] \<rparr>)"

text \<open>\<open>files\<close> is what \<open>rglob\<close> yields, in its order.\<close>

definition vt_analyze_directory :: "tracker \<Rightarrow> source_file list \<Rightarrow> string list option \<Rightarrow> tracker" where
  "vt_analyze_directory tr files exclude_patterns =
     (let patterns = (case exclude_patterns of None \<Rightarrow> vt_default_exclude | Some ps \<Rightarrow> ps);
          python_files = filter (\<lambda>f. \<not> excluded patterns f) files
      in fold vt_analyze_directory_step python_files tr)"

definition new_tracker :: "string \<Rightarrow> tracker" where
  "new_tracker version =
     \<lparr> project_version = version, models = [], endpoints = [], files_analyzed = [], printed = [] \<rparr>"

subsection \<open>export_to_json and compare_with_previous\<close>

text \<open>
  The document \<open>json.load\<close> returns for the previous file, as far as the comparison
  reads it. A key the comparison reads with \<open>.get\<close> may be absent (\<open>None\<close>); the keys
  it reads with an index (\<open>m["name"]\<close>, \<open>f["name"]\<close>, \<open>f["type"]\<close>) are there, with the
  strings \<open>export_to_json\<close> writes.
\<close>

record prev_field =
  pf_name :: string
  pf_type :: string

record prev_model =
  pm_name :: string
  pm_hash :: "string option"
  pm_fields :: "prev_field list option"

record previous_data =
  pd_models :: "prev_model list option"

text \<open>What \<open>export_to_json\<close> writes for the models, read back: \<open>asdict\<close> of every
  value of \<open>self.models\<close>.\<close>

definition export_field :: "field_info \<Rightarrow> prev_field" where
  "export_field f = \<lparr> pf_name = fi_name f, pf_type = fi_type f \<rparr>"

definition export_model :: "model_version \<Rightarrow> prev_model" where
  "export_model m =
     \<lparr> pm_name = mv_name m, pm_hash = Some (mv_hash m),
       pm_fields = Some (map export_field (mv_fields m)) \<rparr>"

definition export_to_json :: "tracker \<Rightarrow> previous_data" where
  "export_to_json tr = \<lparr> pd_models = Some (map export_model (dict_values (models tr))) \<rparr>"

record breaking_change =
  bc_type :: string
  bc_model :: string
  bc_field :: "string option"
  bc_old_type :: "string option"
  bc_new_type :: "string option"
  bc_severity :: string

record changes =
  models_added :: "string list"
  models_removed :: "string list"
  models_modified :: "string list"
  fields_added :: "(string, string list) dict"
  fields_removed :: "(string, string list) dict"
  fields_modified :: "(string, string list) dict"
  breaking_changes :: "breaking_change list"

definition no_changes :: changes where
  "no_changes =
     \<lparr> models_added = [], models_removed = [], models_modified = [],
       fields_added = [], fields_removed = [], fields_modified = [],
       breaking_changes = [] \<rparr>"

definition model_removed :: "string \<Rightarrow> breaking_change" where
  "model_removed name =
     \<lparr> bc_type = ''model_removed'', bc_model = name, bc_field = None,
       bc_old_type = None, bc_new_type = None, bc_severity = ''high'' \<rparr>"

definition required_field_added :: "string \<Rightarrow> string \<Rightarrow> breaking_change" where
  "required_field_added name field_name =
     \<lparr> bc_type = ''required_field_added'', bc_model = name, bc_field = Some field_name,
       bc_old_type = None, bc_new_type = None, bc_severity = ''high'' \<rparr>"

definition field_removed :: "string \<Rightarrow> string \<Rightarrow> breaking_change" where
  "field_removed name field_name =
     \<lparr> bc_type = ''field_removed'', bc_model = name, bc_field = Some field_name,
       bc_old_type = None, bc_new_type = None, bc_severity = ''high'' \<rparr>"

definition field_type_changed :: "string \<Rightarrow> string \<Rightarrow> string \<Rightarrow> string \<Rightarrow> breaking_change" where
  "field_type_changed name field_name old_type new_type =
     \<lparr> bc_type = ''field_type_changed'', bc_model = name, bc_field = Some field_name,
       bc_old_type = Some old_type, bc_new_type = Some new_type, bc_severity = ''high'' \<rparr>"

text \<open>The loops of the comparison, one step each. A loop over the keys of a dictionary
  that then reads the value under the key is a loop over the items.\<close>

definition models_added_step :: "(string, prev_model) dict \<Rightarrow> string \<Rightarrow> changes \<Rightarrow> changes" where
  "models_added_step previous_models name ch =
     (if \<not> dict_has previous_models name
      then ch \<lparr> models_added := models_added ch @ [name] \<rparr>
      else ch)"

definition models_removed_step :: "(string, model_version) dict \<Rightarrow> string \<Rightarrow> changes \<Rightarrow> changes" where
  "models_removed_step current_models name ch =
     (if \<not> dict_has current_models name
      then ch \<lparr> models_removed := models_removed ch @ [name],
                breaking_changes := breaking_changes ch @ [model_removed name] \<rparr>
      else ch)"

definition fields_added_step ::
  "string \<Rightarrow> (string, prev_field) dict \<Rightarrow> string \<times> field_info \<Rightarrow> changes \<Rightarrow> changes" where
  "fields_added_step name previous_fields item ch =
     (case item of (field_name, f) \<Rightarrow>
        if \<not> dict_has previous_fields field_name
        then
          (let ch1 = ch \<lparr> fields_added := setdefault_append name field_name (fields_added ch) \<rparr>
           in if fi_required f
              then ch1 \<lparr> breaking_changes :=
                          breaking_changes ch1 @ [required_field_added name field_name] \<rparr>
              else ch1)
        else ch)"

definition fields_removed_step ::
  "string \<Rightarrow> (string, field_info) dict \<Rightarrow> string \<Rightarrow> changes \<Rightarrow> changes" where
  "fields_removed_step name current_fields field_name ch =
     (if \<not> dict_has current_fields field_name
      then ch \<lparr> fields_removed := setdefault_append name field_name (fields_removed ch),
                breaking_changes := breaking_changes ch @ [field_removed name field_name] \<rparr>
      else ch)"

definition fields_modified_step ::
  "string \<Rightarrow> (string, prev_field) dict \<Rightarrow> string \<times> field_info \<Rightarrow> changes \<Rightarrow> changes" where
  "fields_modified_step name previous_fields item ch =
     (case item of (field_name, f) \<Rightarrow>
        case dict_get previous_fields field_name of
          None \<Rightarrow> ch
        | Some pf \<Rightarrow>
            if fi_type f \<noteq> pf_type pf
            then ch \<lparr> fields_modified := setdefault_append name field_name (fields_modified ch),
                      breaking_changes := breaking_changes ch
                        @ [field_type_changed name field_name (pf_type pf) (fi_type f)] \<rparr>
            else ch)"

definition current_fields_of :: "model_version \<Rightarrow> (string, field_info) dict" where
  "current_fields_of current = dict_of fi_name (mv_fields current)"

definition previous_fields_of :: "prev_model \<Rightarrow> (string, prev_field) dict" where
  "previous_fields_of previous =
     dict_of pf_name (case pm_fields previous of None \<Rightarrow> [] | Some fs \<Rightarrow> fs)"

definition compare_fields :: "string \<Rightarrow> model_version \<Rightarrow> prev_model \<Rightarrow> changes \<Rightarrow> changes" where
  "compare_fields name current previous ch =
     (let current_fields = current_fields_of current;
          previous_fields = previous_fields_of previous;
          ch1 = fold (fields_added_step name previous_fields) current_fields ch;
          ch2 = fold (fields_removed_step name current_fields) (dict_keys previous_fields) ch1
      in fold (fields_modified_step name previous_fields) current_fields ch2)"

definition models_modified_step ::
  "(string, prev_model) dict \<Rightarrow> string \<times> model_version \<Rightarrow> changes \<Rightarrow> changes" where
  "models_modified_step previous_models item ch =
     (case item of (name, current) \<Rightarrow>
        case dict_get previous_models name of
          None \<Rightarrow> ch
        | Some previous \<Rightarrow>
            if Some (mv_hash current) \<noteq> pm_hash previous
            then compare_fields name current previous
                   (ch \<lparr> models_modified := models_modified ch @ [name] \<rparr>)
            else ch)"

definition previous_models_of :: "previous_data \<Rightarrow> (string, prev_model) dict" where
  "previous_models_of previous_data =
     dict_of pm_name (case pd_models previous_data of None \<Rightarrow> [] | Some ms \<Rightarrow> ms)"

text \<open>\<open>{name: asdict(model) for name, model in self.models.items()}\<close>\<close>

definition current_models_of :: "tracker \<Rightarrow> (string, model_version) dict" where
  "current_models_of tr = fold (\<lambda>item d. dict_set (fst item) (snd item) d) (models tr) []"

text \<open>
  \<open>previous_file\<close> is what opening the file and \<open>json.load\<close> give: \<open>None\<close> when either
  raises. The result \<open>None\<close> stands for the empty dictionary that the \<open>except\<close> branch
  returns after printing the error.
\<close>

definition compare_with_previous :: "tracker \<Rightarrow> previous_data option \<Rightarrow> changes option" where
  "compare_with_previous tr previous_file =
     (case previous_file of
        None \<Rightarrow> None
      | Some previous_data \<Rightarrow>
          (let previous_models = previous_models_of previous_data;
               current_models = current_models_of tr;
               ch1 = fold (models_added_step previous_models) (dict_keys current_models) no_changes;
               ch2 = fold (models_removed_step current_models) (dict_keys previous_models) ch1
           in Some (fold (models_modified_step previous_models) current_models ch2)))"

section \<open>Code analyzer (tools/code_analyzer.py)\<close>

record ca_field =
  cf_name :: string
  cf_type :: string
  cf_default :: "string option"

record model_info =
  mi_name :: string
  mi_file_path :: string
  mi_line_number :: int
  mi_base_classes :: "string list"
  mi_fields :: "ca_field list"
  mi_docstring :: "string option"
  mi_decorators :: "string list"
  mi_is_pydantic :: bool
  mi_is_dataclass :: bool

record ca_parameter =
  cp_name :: string
  cp_type :: "string option"

record function_info =
  fn_name :: string
  fn_file_path :: string
  fn_line_number :: int
  fn_class_name :: "string option"
  fn_parameters :: "ca_parameter list"
  fn_return_type :: "string option"
  fn_docstring :: "string option"
  fn_decorators :: "string list"
  fn_is_async :: bool

record request_response_mapping =
  rr_function_name :: string
  rr_file_path :: string
  rr_request_models :: "string list"
  rr_response_models :: "string list"
  rr_http_method :: "string option"
  rr_endpoint :: const_value

record analyzer =
  ca_models :: "model_info list"
  ca_functions :: "function_info list"
  ca_mappings :: "request_response_mapping list"
  ca_printed :: "string list"

text \<open>
  The analyzer's \<open>_get_decorator_name\<close> ends with \<open>str(decorator)\<close>, the default text
  of a Python object, which holds the object's address. That text is the parameter
  \<open>obj_str\<close> of the functions below.
\<close>

fun ca_get_decorator_name :: "(expr \<Rightarrow> string) \<Rightarrow> expr \<Rightarrow> string" where
  "ca_get_decorator_name obj_str (Name i) = i"
| "ca_get_decorator_name obj_str (Call (Name i) args kws) = i"
| "ca_get_decorator_name obj_str (Call (Attribute v a) args kws) = get_attr_name (Attribute v a)"
| "ca_get_decorator_name obj_str (Attribute v a) = get_attr_name (Attribute v a)"
| "ca_get_decorator_name obj_str e = obj_str e"

fun ca_class_fields :: "node list \<Rightarrow> ca_field list" where
  "ca_class_fields [] = []"
| "ca_class_fields (AnnAssign (Name i) annotation val # body) =
     \<lparr> cf_name = i, cf_type = annotation, cf_default = val \<rparr> # ca_class_fields body"
| "ca_class_fields (_ # body) = ca_class_fields body"

definition ca_extract_model ::
  "(expr \<Rightarrow> string) \<Rightarrow> source_file \<Rightarrow> class_head \<Rightarrow> node list \<Rightarrow> analyzer \<Rightarrow> analyzer" where
  "ca_extract_model obj_str file h body an =
     (let base_classes = base_class_names (cd_bases h);
          is_pydantic = is_pydantic_bases base_classes;
          decorators = map (ca_get_decorator_name obj_str) (cd_decorator_list h);
          is_dataclass = is_dataclass_decorators decorators;
          model = \<lparr> mi_name = cd_name h,
                    mi_file_path = sf_relative file,
                    mi_line_number = cd_lineno h,
                    mi_base_classes = base_classes,
                    mi_fields = ca_class_fields body,
                    mi_docstring = cd_docstring h,
                    mi_decorators = decorators,
                    mi_is_pydantic = is_pydantic,
                    mi_is_dataclass = is_dataclass \<rparr>
      in an \<lparr> ca_models := ca_models an @ [model] \<rparr>)"

definition ca_http_verbs :: "string list" where
  "ca_http_verbs = [''get'', ''post'', ''put'', ''patch'', ''delete'']"

definition ca_decorator_step ::
  "(expr \<Rightarrow> string) \<Rightarrow> expr \<Rightarrow> string option \<times> const_value \<Rightarrow> string option \<times> const_value" where
  "ca_decorator_step obj_str decorator acc =
     (let dec_name = ca_get_decorator_name obj_str decorator in
      if dec_name \<in> set ca_http_verbs
      then (Some (upper dec_name),
            (case decorator of
               Call f (Constant c # args) kws \<Rightarrow> c
             | _ \<Rightarrow> snd acc))
      else acc)"

definition request_type_of :: "string option \<Rightarrow> string list" where
  "request_type_of param_type =
     (case param_type of
        None \<Rightarrow> []
      | Some t \<Rightarrow>
          if t \<noteq> [] \<and>
             (str_contains ''Request'' t \<or> str_contains ''Input'' t \<or> str_contains ''Body'' t)
          then [t] else [])"

definition response_type_of :: "string option \<Rightarrow> string list" where
  "response_type_of return_type =
     (case return_type of
        None \<Rightarrow> []
      | Some t \<Rightarrow>
          if t \<noteq> [] \<and> (str_contains ''Response'' t \<or> str_contains ''Output'' t)
          then [t] else [])"

definition ca_detect_req_resp_mapping ::
  "(expr \<Rightarrow> string) \<Rightarrow> func_head \<Rightarrow> function_info \<Rightarrow> analyzer \<Rightarrow> analyzer" where
  "ca_detect_req_resp_mapping obj_str h function an =
     (case fold (ca_decorator_step obj_str) (fd_decorator_list h) (None, NoneC) of
        (method, endpoint) \<Rightarrow>
          (let request_models = concat (map (\<lambda>p. request_type_of (cp_type p)) (fn_parameters function));
               response_models = response_type_of (fn_return_type function)
           in if request_models \<noteq> [] \<or> response_models \<noteq> []
                 \<or> (method \<noteq> None \<and> method \<noteq> Some [])
              then an \<lparr> ca_mappings := ca_mappings an @
                         [\<lparr> rr_function_name = fn_name function,
                            rr_file_path = fn_file_path function,
                            rr_request_models = request_models,
                            rr_response_models = response_models,
                            rr_http_method = method,
                            rr_endpoint = endpoint \<rparr>] \<rparr>
              else an))"

definition ca_extract_function ::
  "(expr \<Rightarrow> string) \<Rightarrow> source_file \<Rightarrow> func_head \<Rightarrow> analyzer \<Rightarrow> analyzer" where
  "ca_extract_function obj_str file h an =
     (let function =
            \<lparr> fn_name = fd_name h,
              fn_file_path = sf_relative file,
              fn_line_number = fd_lineno h,
              fn_class_name = None,
              fn_parameters = map (\<lambda>a. \<lparr> cp_name = arg_name a, cp_type = arg_annotation a \<rparr>) (fd_args h),
              fn_return_type = fd_returns h,
              fn_docstring = fd_docstring h,
              fn_decorators = map (ca_get_decorator_name obj_str) (fd_decorator_list h),
              fn_is_async = fd_is_async h \<rparr>
      in ca_detect_req_resp_mapping obj_str h function
           (an \<lparr> ca_functions := ca_functions an @ [function] \<rparr>))"

definition ca_extract_step :: "(expr \<Rightarrow> string) \<Rightarrow> source_file \<Rightarrow> node \<Rightarrow> analyzer \<Rightarrow> analyzer" where
  "ca_extract_step obj_str file n an =
     (case n of
        ClassDef h body \<Rightarrow> ca_extract_model obj_str file h body an
      | FunctionDef h body \<Rightarrow> ca_extract_function obj_str file h an
      | _ \<Rightarrow> an)"

definition ca_extract_from_ast :: "(expr \<Rightarrow> string) \<Rightarrow> node \<Rightarrow> source_file \<Rightarrow> analyzer \<Rightarrow> analyzer" where
  "ca_extract_from_ast obj_str tree file an = fold (ca_extract_step obj_str file) (walk tree) an"

definition ca_analyze_file :: "(expr \<Rightarrow> string) \<Rightarrow> source_file \<Rightarrow> analyzer \<Rightarrow> analyzer" where
  "ca_analyze_file obj_str file an =
     (case sf_parsed file of
        ParseError e \<Rightarrow>
          an \<lparr> ca_printed := ca_printed an @ [''Error analyzing '' @ sf_path file @ '': '' @ e] \<rparr>
      | Parsed tree \<Rightarrow> ca_extract_from_ast obj_str tree file an)"

definition ca_default_exclude :: "string list" where
  "ca_default_exclude = [''venv'', ''.venv'', ''__pycache__'', ''node_modules'', ''.git'']"

definition ca_analyze_directory ::
  "(expr \<Rightarrow> string) \<Rightarrow> source_file list \<Rightarrow> string list option \<Rightarrow> analyzer \<Rightarrow> analyzer" where
  "ca_analyze_directory obj_str files exclude_patterns an =
     (let patterns = (case exclude_patterns of None \<Rightarrow> ca_default_exclude | Some ps \<Rightarrow> ps);
          python_files = filter (\<lambda>f. \<not> excluded patterns f) files
      in fold (ca_analyze_file obj_str) python_files an)"

definition new_analyzer :: analyzer where
  "new_analyzer = \<lparr> ca_models = [], ca_functions = [], ca_mappings = [], ca_printed = [] \<rparr>"

section \<open>Drift detector (TOOLSET/validation-tools/drift_detector.py)\<close>

subsection \<open>detect_drift\<close>














subsection \<open>calculate_drift_score\<close>

definition weights :: "(string, int) dict" where
  "weights =
     [(''new_methods'', 1),
      (''deleted_methods'', 3),
      (''changed_signatures'', 2),
      (''changed_classification'', 1),
      (''version_changes'', 1)]"

text \<open>\<open>weights.get(category, 1)\<close>\<close>

definition weights_get :: "string \<Rightarrow> int \<Rightarrow> int" where
  "weights_get category dflt =
     (case dict_get weights category of None \<Rightarrow> dflt | Some w \<Rightarrow> w)"

fun drift_score_loop :: "(string, 'a list) dict \<Rightarrow> int \<Rightarrow> int" where
  "drift_score_loop [] score = score"
| "drift_score_loop ((category, items) # rest) score =
     drift_score_loop rest (score + int (length items) * weights_get category 1)"

definition drift_total_changes :: "(string, 'a list) dict \<Rightarrow> int" where
  "drift_total_changes drift = sum_list (map (\<lambda>items. int (length items)) (dict_values drift))"

record drift_score =
  total_changes :: int
  drift_score :: int
  severity :: string
  requires_update :: bool

definition calculate_drift_score :: "(string, 'a list) dict \<Rightarrow> drift_score" where
  "calculate_drift_score drift =
     (let score = drift_score_loop drift 0;
          total = drift_total_changes drift;
          sev = (if score = 0 then ''none''
                 else if score \<le> 3 then ''low''
                 else if score \<le> 10 then ''medium''
                 else ''high'')
      in \<lparr> total_changes = total, drift_score = score, severity = sev,
           requires_update = (total > 0) \<rparr>)"

text \<open>
  The dictionary literal that \<open>detect_drift\<close> fills: always these five keys, in this
  order.
\<close>

definition drift_dict ::
  "'a list \<Rightarrow> 'a list \<Rightarrow> 'a list \<Rightarrow> 'a list \<Rightarrow> 'a list \<Rightarrow> (string, 'a list) dict" where
  "drift_dict new deleted sigs classif vers =
     [(''new_methods'', new),
      (''deleted_methods'', deleted),
      (''changed_signatures'', sigs),
      (''changed_classification'', classif),
      (''version_changes'', vers)]"

subsection \<open>main\<close>






section \<open>Notions of the specification\<close>


text \<open>The two conditions of record recognition: some base-class name contains the
  marker of the structured-model base, some decorator is named as the plain data
  record marker.\<close>

definition has_model_base :: "class_head \<Rightarrow> bool" where
  "has_model_base h = (\<exists>b \<in> set (base_class_names (cd_bases h)). str_contains ''BaseModel'' b)"

definition has_dataclass_decorator :: "class_head \<Rightarrow> bool" where
  "has_dataclass_decorator h =
     (\<exists>d \<in> set (cd_decorator_list h). get_decorator_name d = ''dataclass'')"

text \<open>The names of the classes among the nodes that meet one of the two conditions.\<close>

definition qualifying_names :: "node list \<Rightarrow> string set" where
  "qualifying_names ns =
     {cd_name c | c body. ClassDef c body \<in> set ns \<and> (has_model_base c \<or> has_dataclass_decorator c)}"

text \<open>A file that reads and parses.\<close>

definition parses :: "source_file \<Rightarrow> bool" where
  "parses file = (case sf_parsed file of Parsed tree \<Rightarrow> True | ParseError e \<Rightarrow> False)"

section \<open>Example inputs\<close>

definition ex_file :: "node list \<Rightarrow> source_file" where
  "ex_file body =
     \<lparr> sf_path = ''/app/models.py'', sf_relative = ''models.py'',
       sf_git = (None, None, None), sf_parsed = Parsed (Module body) \<rparr>"

definition ex_broken_file :: source_file where
  "ex_broken_file =
     \<lparr> sf_path = ''/app/broken.py'', sf_relative = ''broken.py'',
       sf_git = (None, None, None), sf_parsed = ParseError ''invalid syntax'' \<rparr>"

text \<open>\<open>class Plain: ...\<close>, \<open>@dataclass(frozen=True) class Both(pydantic.BaseModel): ...\<close>\<close>

definition ex_plain_class :: class_head where
  "ex_plain_class =
     \<lparr> cd_name = ''Plain'', cd_bases = [], cd_decorator_list = [],
       cd_lineno = 1, cd_docstring = None \<rparr>"

definition ex_both_class :: class_head where
  "ex_both_class =
     \<lparr> cd_name = ''Both'', cd_bases = [Attribute (Name ''pydantic'') ''BaseModel''],
       cd_decorator_list = [Call (Name ''dataclass'') [] [(Some ''frozen'', Constant (BoolC True))]],
       cd_lineno = 4, cd_docstring = None \<rparr>"

section \<open>Notions of the specification: routes\<close>


text \<open>The first positional argument of a decorator call, when it is a literal.\<close>

fun first_positional :: "expr \<Rightarrow> const_value option" where
  "first_positional (Call f (Constant c # args) kws) = Some c"
| "first_positional _ = None"










section \<open>Notions of the specification: request and response models\<close>








section \<open>Properties\<close>

subsection \<open>Dictionaries\<close>

lemma dict_get_None_iff: "dict_get d k = None \<longleftrightarrow> k \<notin> set (dict_keys d)"
  by (induction d k rule: dict_get.induct) (auto simp: dict_keys_def)

lemma dict_has_iff: "dict_has d k \<longleftrightarrow> k \<in> set (dict_keys d)"
  by (simp add: dict_has_def dict_get_None_iff)

lemma dict_get_SomeD: "dict_get d k = Some v \<Longrightarrow> (k, v) \<in> set d"
  by (induction d k rule: dict_get.induct) (auto split: if_splits)

lemma dict_get_distinct:
  "distinct (dict_keys d) \<Longrightarrow> (k, v) \<in> set d \<Longrightarrow> dict_get d k = Some v"
proof (induction d)
  case Nil
  then show ?case by simp
next
  case (Cons p d)
  obtain k' v' where p: "p = (k', v')" by (cases p)
  show ?case
  proof (cases "k = k'")
    case True
    have "k' \<notin> fst ` set d"
      using Cons.prems(1) by (simp add: dict_keys_def p)
    then have "(k, v) \<notin> set d"
      using True by force
    with Cons.prems(2) have "v = v'" by (simp add: p True)
    then show ?thesis by (simp add: p True)
  next
    case False
    with Cons show ?thesis by (simp add: p dict_keys_def)
  qed
qed

lemma dict_get_set: "dict_get (dict_set k v d) k' = (if k' = k then Some v else dict_get d k')"
  by (induction k v d rule: dict_set.induct) auto

lemma dict_keys_set_eq:
  "dict_keys (dict_set k v d) = (if k \<in> set (dict_keys d) then dict_keys d else dict_keys d @ [k])"
  by (induction k v d rule: dict_set.induct) (auto simp: dict_keys_def)

lemma set_dict_keys_set: "set (dict_keys (dict_set k v d)) = insert k (set (dict_keys d))"
  by (auto simp: dict_keys_set_eq)

lemma distinct_dict_set: "distinct (dict_keys d) \<Longrightarrow> distinct (dict_keys (dict_set k v d))"
  by (simp add: dict_keys_set_eq)

lemma dict_set_fresh: "k \<notin> set (dict_keys d) \<Longrightarrow> dict_set k v d = d @ [(k, v)]"
  by (induction k v d rule: dict_set.induct) (auto simp: dict_keys_def)

lemma set_dict_set_subset: "set (dict_set k v d) \<subseteq> insert (k, v) (set d)"
  by (induction k v d rule: dict_set.induct) (auto split: if_splits)

lemma fold_dict_set_keys:
  "set (dict_keys (fold (\<lambda>x d. dict_set (key x) (val x) d) xs d))
   = set (dict_keys d) \<union> key ` set xs"
  by (induction xs arbitrary: d) (auto simp: set_dict_keys_set)

lemma fold_dict_set_distinct:
  "distinct (dict_keys d) \<Longrightarrow>
   distinct (dict_keys (fold (\<lambda>x d. dict_set (key x) (val x) d) xs d))"
  by (induction xs arbitrary: d) (auto simp: distinct_dict_set)

lemma fold_dict_set_get_notin:
  "k \<notin> key ` set xs \<Longrightarrow>
   dict_get (fold (\<lambda>x d. dict_set (key x) (val x) d) xs d) k = dict_get d k"
  by (induction xs arbitrary: d) (auto simp: dict_get_set)

lemma fold_dict_set_get_distinct:
  "distinct (map key xs) \<Longrightarrow> x \<in> set xs \<Longrightarrow>
   dict_get (fold (\<lambda>x d. dict_set (key x) (val x) d) xs d) (key x) = Some (val x)"
proof (induction xs arbitrary: d)
  case Nil
  then show ?case by simp
next
  case (Cons y ys)
  show ?case
  proof (cases "x = y")
    case True
    with Cons.prems have "key x \<notin> key ` set ys" by auto
    then show ?thesis
      using True by (simp add: fold_dict_set_get_notin dict_get_set)
  next
    case False
    with Cons show ?thesis by auto
  qed
qed

lemma fold_dict_set_values:
  "(k, v) \<in> set (fold (\<lambda>x d. dict_set (key x) (val x) d) xs d) \<Longrightarrow>
   (k, v) \<in> set d \<or> (\<exists>x \<in> set xs. k = key x \<and> v = val x)"
proof (induction xs arbitrary: d)
  case Nil
  then show ?case by simp
next
  case (Cons y ys)
  from Cons.prems
  have "(k, v) \<in> set (fold (\<lambda>x d. dict_set (key x) (val x) d) ys (dict_set (key y) (val y) d))"
    by simp
  from Cons.IH [OF this]
  show ?case using set_dict_set_subset [of "key y" "val y" d] by auto
qed

lemma fold_dict_set_id:
  "distinct (map fst (d @ xs)) \<Longrightarrow>
   fold (\<lambda>item d. dict_set (fst item) (snd item) d) xs d = d @ xs"
proof (induction xs arbitrary: d)
  case Nil
  then show ?case by simp
next
  case (Cons x xs)
  have fresh: "fst x \<notin> set (dict_keys d)"
    using Cons.prems by (auto simp: dict_keys_def)
  have "distinct (map fst ((d @ [x]) @ xs))"
    using Cons.prems by simp
  from Cons.IH [OF this] show ?case
    by (simp add: dict_set_fresh [OF fresh])
qed

lemma dict_of_keys: "set (dict_keys (dict_of key xs)) = key ` set xs"
  unfolding dict_of_def using fold_dict_set_keys [of key "\<lambda>x. x" xs "[]"]
  by (simp add: dict_keys_def)

lemma dict_of_distinct: "distinct (dict_keys (dict_of key xs))"
  unfolding dict_of_def by (rule fold_dict_set_distinct) (simp add: dict_keys_def)

lemma dict_of_has: "dict_has (dict_of key xs) k \<longleftrightarrow> k \<in> key ` set xs"
  by (simp add: dict_has_iff dict_of_keys)

lemma dict_of_get_distinct:
  "distinct (map key xs) \<Longrightarrow> x \<in> set xs \<Longrightarrow> dict_get (dict_of key xs) (key x) = Some x"
  unfolding dict_of_def by (rule fold_dict_set_get_distinct)

lemma dict_of_get_key: "dict_get (dict_of key xs) k = Some x \<Longrightarrow> key x = k \<and> x \<in> set xs"
  unfolding dict_of_def
  using fold_dict_set_values [of k x key "\<lambda>x. x" xs "[]"] by (auto dest: dict_get_SomeD)

subsection \<open>Drift score and exit codes\<close>

lemma drift_score_loop_acc:
  "drift_score_loop d s = s + drift_score_loop d 0"
proof (induction d arbitrary: s)
  case Nil
  show ?case by simp
next
  case (Cons p d)
  obtain c xs where p: "p = (c, xs)" by (cases p)
  have "drift_score_loop (p # d) s
        = drift_score_loop d (s + int (length xs) * weights_get c 1)"
    by (simp add: p)
  also have "\<dots> = s + int (length xs) * weights_get c 1 + drift_score_loop d 0"
    by (rule Cons.IH)
  also have "\<dots> = s + drift_score_loop d (0 + int (length xs) * weights_get c 1)"
    using Cons.IH [of "0 + int (length xs) * weights_get c 1"] by simp
  finally show ?case by (simp add: p)
qed

lemma weights_get_simps:
  "weights_get ''new_methods'' d = 1"
  "weights_get ''deleted_methods'' d = 3"
  "weights_get ''changed_signatures'' d = 2"
  "weights_get ''changed_classification'' d = 1"
  "weights_get ''version_changes'' d = 1"
  by (simp_all add: weights_get_def weights_def)

lemma drift_score_formula:
  "drift_score (calculate_drift_score (drift_dict new deleted sigs classif vers))
   = 1 * int (length new) + 3 * int (length deleted) + 2 * int (length sigs)
     + 1 * int (length classif) + 1 * int (length vers)"
  by (simp add: calculate_drift_score_def drift_dict_def weights_get_simps Let_def)

text \<open>
  Claim C7. The drift score is 1 times the number of new methods plus 3 times the number of
  deleted methods plus 2 times the number of changed signatures plus 1 times the number
  of changed classifications plus 1 times the number of version changes. The severity
  is "none" exactly when the score is 0, "low" exactly for scores 1 to 3, "medium"
  exactly for scores 4 to 10 and "high" exactly for scores above 10. One more
  deleted-method entry in an otherwise unchanged drift dictionary raises the score by
  exactly 3.
\<close>

theorem C7_drift_score:
  "let r = calculate_drift_score (drift_dict new deleted sigs classif vers) in
     drift_score r
       = 1 * int (length new) + 3 * int (length deleted) + 2 * int (length sigs)
         + 1 * int (length classif) + 1 * int (length vers)
     \<and> (severity r = ''none'') = (drift_score r = 0)
     \<and> (severity r = ''low'') = (1 \<le> drift_score r \<and> drift_score r \<le> 3)
     \<and> (severity r = ''medium'') = (4 \<le> drift_score r \<and> drift_score r \<le> 10)
     \<and> (severity r = ''high'') = (10 < drift_score r)
     \<and> drift_score (calculate_drift_score (drift_dict new (deleted @ [x]) sigs classif vers))
         = drift_score r + 3"
proof -
  define r where "r = calculate_drift_score (drift_dict new deleted sigs classif vers)"
  have score: "drift_score r
         = 1 * int (length new) + 3 * int (length deleted) + 2 * int (length sigs)
           + 1 * int (length classif) + 1 * int (length vers)"
    unfolding r_def by (rule drift_score_formula)
  have nonneg: "0 \<le> drift_score r"
    by (simp add: score)
  have sev: "severity r =
               (if drift_score r = 0 then ''none''
                else if drift_score r \<le> 3 then ''low''
                else if drift_score r \<le> 10 then ''medium''
                else ''high'')"
    unfolding r_def by (simp add: calculate_drift_score_def Let_def)
  have s0: "(severity r = ''none'') = (drift_score r = 0)"
    by (simp add: sev)
  have s1: "(severity r = ''low'') = (1 \<le> drift_score r \<and> drift_score r \<le> 3)"
    using nonneg by (auto simp: sev)
  have s2: "(severity r = ''medium'') = (4 \<le> drift_score r \<and> drift_score r \<le> 10)"
    using nonneg by (auto simp: sev)
  have s3: "(severity r = ''high'') = (10 < drift_score r)"
    using nonneg by (auto simp: sev)
  have s4: "drift_score (calculate_drift_score (drift_dict new (deleted @ [x]) sigs classif vers))
         = drift_score r + 3"
    unfolding r_def by (simp add: drift_score_formula)
  from score s0 s1 s2 s3 s4 show ?thesis
    unfolding r_def Let_def by blast
qed

theorem C7_drift_score_witness:
  "let r = calculate_drift_score
             (drift_dict [''a''] [''b'', ''c''] [''d''] ([] :: string list) [''e'']) in
     drift_score r = 10 \<and> severity r = ''medium''
     \<and> drift_score (calculate_drift_score
           (drift_dict [''a''] ([''b'', ''c''] @ [''x'']) [''d''] [] [''e''])) = 13"
  using C7_drift_score [of "[''a'']" "[''b'', ''c'']" "[''d'']" "[] :: string list" "[''e'']" "''x''"]
  by (simp add: Let_def)






subsection \<open>Record recognition\<close>

lemma is_pydantic_iff: "is_pydantic_bases (base_class_names (cd_bases h)) = has_model_base h"
  by (simp add: is_pydantic_bases_def has_model_base_def list_ex_iff)

lemma is_dataclass_iff:
  "is_dataclass_decorators (map get_decorator_name (cd_decorator_list h)) = has_dataclass_decorator h"
  by (simp add: is_dataclass_decorators_def has_dataclass_decorator_def image_iff
        eq_commute [of "''dataclass''"])

lemma parse_model_None_iff:
  "parse_model version file h body = None \<longleftrightarrow> \<not> (has_model_base h \<or> has_dataclass_decorator h)"
  by (simp add: parse_model_def Let_def is_pydantic_iff is_dataclass_iff split: prod.splits)

lemma parse_model_Some:
  "parse_model version file h body = Some m \<Longrightarrow>
     mv_name m = cd_name h \<and> mv_is_pydantic m = has_model_base h
     \<and> mv_is_dataclass m = has_dataclass_decorator h
     \<and> mv_base_classes m = base_class_names (cd_bases h)
     \<and> mv_fields m = class_fields body
     \<and> mv_hash m = model_hash (mv_name m) (mv_base_classes m) (mv_fields m)"
  by (auto simp: parse_model_def Let_def is_pydantic_iff is_dataclass_iff split: prod.splits if_splits)

lemma extract_models_step_keys:
  "set (dict_keys (extract_models_step version file n ms))
   = set (dict_keys ms) \<union> qualifying_names [n]"
proof (cases n)
  case (ClassDef h body)
  show ?thesis
  proof (cases "parse_model version file h body")
    case None
    then show ?thesis
      using parse_model_None_iff [of version "file" h body]
      by (auto simp: extract_models_step_def ClassDef qualifying_names_def)
  next
    case (Some m)
    then have "has_model_base h \<or> has_dataclass_decorator h"
      using parse_model_None_iff [of version "file" h body] by auto
    then show ?thesis
      using Some parse_model_Some [OF Some]
      by (auto simp: extract_models_step_def ClassDef qualifying_names_def set_dict_keys_set)
  qed
qed (simp_all add: extract_models_step_def qualifying_names_def)

lemma qualifying_names_Cons:
  "qualifying_names (n # ns) = qualifying_names [n] \<union> qualifying_names ns"
  by (auto simp: qualifying_names_def)

lemma fold_extract_models_keys:
  "set (dict_keys (fold (extract_models_step version file) ns ms))
   = set (dict_keys ms) \<union> qualifying_names ns"
proof (induction ns arbitrary: ms)
  case Nil
  show ?case by (simp add: qualifying_names_def)
next
  case (Cons n ns)
  show ?case
    using qualifying_names_Cons [of n ns]
    by (simp add: Cons.IH extract_models_step_keys Un_assoc)
qed

lemma ca_extract_model_records:
  "\<exists>m. ca_models (ca_extract_model obj_str file h body an) = ca_models an @ [m]
       \<and> mi_name m = cd_name h
       \<and> mi_is_pydantic m = has_model_base h
       \<and> mi_is_dataclass m
           = (''dataclass'' \<in> set (map (ca_get_decorator_name obj_str) (cd_decorator_list h)))"
  by (simp add: ca_extract_model_def Let_def is_pydantic_iff is_dataclass_decorators_def)

text \<open>
  Claim C5, as amended. The version tracker extracts a class declaration as a record
  if and only if some base-class name contains "BaseModel" or some decorator is named
  "dataclass"; the two flags of the record are these two conditions, each on its own,
  and both can be true; after a tree is extracted, the names stored in the tracker are
  those it held before and the names of the classes of the tree that meet one of the
  conditions. The code analyzer records every class declaration, whatever its bases
  and decorators, with the two flags evaluated the same way.
\<close>

theorem C5_record_recognition:
  "(parse_model version file h body \<noteq> None
      \<longleftrightarrow> has_model_base h \<or> has_dataclass_decorator h)
   \<and> (\<forall>m. parse_model version file h body = Some m \<longrightarrow>
          mv_name m = cd_name h
          \<and> mv_is_pydantic m = has_model_base h
          \<and> mv_is_dataclass m = has_dataclass_decorator h)
   \<and> set (dict_keys (models (extract_models tr file tree)))
       = set (dict_keys (models tr))
         \<union> {cd_name c | c cbody. ClassDef c cbody \<in> set (walk tree)
                \<and> (has_model_base c \<or> has_dataclass_decorator c)}
   \<and> (\<exists>m. ca_models (ca_extract_model obj_str file h body an) = ca_models an @ [m]
          \<and> mi_name m = cd_name h
          \<and> mi_is_pydantic m = has_model_base h
          \<and> mi_is_dataclass m
              = (''dataclass'' \<in> set (map (ca_get_decorator_name obj_str) (cd_decorator_list h))))"
proof -
  have a: "parse_model version file h body \<noteq> None
             \<longleftrightarrow> has_model_base h \<or> has_dataclass_decorator h"
    by (simp add: parse_model_None_iff)
  have b: "\<forall>m. parse_model version file h body = Some m \<longrightarrow>
          mv_name m = cd_name h
          \<and> mv_is_pydantic m = has_model_base h
          \<and> mv_is_dataclass m = has_dataclass_decorator h"
    using parse_model_Some by blast
  have c: "set (dict_keys (models (extract_models tr file tree)))
       = set (dict_keys (models tr))
         \<union> {cd_name c | c cbody. ClassDef c cbody \<in> set (walk tree)
                \<and> (has_model_base c \<or> has_dataclass_decorator c)}"
    using fold_extract_models_keys [of "project_version tr" "file" "walk tree" "models tr"]
    by (simp add: extract_models_def qualifying_names_def)
  from a b c ca_extract_model_records [of obj_str "file" h body an]
  show ?thesis by blast
qed

theorem C5_record_recognition_witness:
  "has_model_base ex_both_class \<and> has_dataclass_decorator ex_both_class
   \<and> map_option mv_is_pydantic (parse_model ''1.0.0'' (ex_file []) ex_both_class []) = Some True
   \<and> map_option mv_is_dataclass (parse_model ''1.0.0'' (ex_file []) ex_both_class []) = Some True
   \<and> map_option mv_base_classes (parse_model ''1.0.0'' (ex_file []) ex_both_class [])
       = Some [''pydantic.BaseModel'']
   \<and> parse_model ''1.0.0'' (ex_file []) ex_plain_class [] = None"
  using
    C5_record_recognition [of "''1.0.0''" "ex_file []" ex_both_class "[]"
      "new_tracker ''1.0.0''" "Module []" "\<lambda>e. []" new_analyzer]
    C5_record_recognition [of "''1.0.0''" "ex_file []" ex_plain_class "[]"
      "new_tracker ''1.0.0''" "Module []" "\<lambda>e. []" new_analyzer]
  by (simp add: ex_both_class_def ex_plain_class_def ex_file_def has_model_base_def
        has_dataclass_decorator_def get_attr_name_def parse_model_def Let_def
        is_pydantic_bases_def is_dataclass_decorators_def)

text \<open>
  The claim as stated fails for the code analyzer: a class with no base and no
  decorator meets neither condition and is recorded all the same.
\<close>

theorem C5_counterexample:
  "\<not> has_model_base ex_plain_class \<and> \<not> has_dataclass_decorator ex_plain_class
   \<and> map mi_name
         (ca_models (ca_analyze_file (\<lambda>e. []) (ex_file [ClassDef ex_plain_class []]) new_analyzer))
       = [''Plain'']"
  by (simp add: ex_plain_class_def ex_file_def has_model_base_def has_dataclass_decorator_def
        ca_analyze_file_def ca_extract_from_ast_def walk_def ca_extract_step_def
        ca_extract_model_def new_analyzer_def Let_def)

subsection \<open>Endpoint recognition\<close>

lemma upper_eq_Nil: "upper s = [] \<longleftrightarrow> s = []"
  by (simp add: upper_def)


lemma keyword_step_method [simp]:
  "acc_http_method (keyword_step k acc) = acc_http_method acc"
  "acc_endpoint_path (keyword_step k acc) = acc_endpoint_path acc"
  by (cases "(k, acc)" rule: keyword_step.cases; simp)+

lemma fold_keyword_step_method [simp]:
  "acc_http_method (fold keyword_step kws acc) = acc_http_method acc"
  "acc_endpoint_path (fold keyword_step kws acc) = acc_endpoint_path acc"
  by (induction kws arbitrary: acc) simp_all



lemma decorator_path_fields [simp]:
  "acc_http_method (decorator_path d acc) = acc_http_method acc"
  "acc_tags (decorator_path d acc) = acc_tags acc"
  "acc_deprecated (decorator_path d acc) = acc_deprecated acc"
  "acc_endpoint_path (decorator_path d acc)
   = (case first_positional d of None \<Rightarrow> acc_endpoint_path acc | Some c \<Rightarrow> c)"
  by (cases "(d, acc)" rule: decorator_path.cases; simp)+













subsection \<open>Request and response models\<close>










end
